theory Spec2Isabelle
  imports Complex_Main "HOL-Library.Multiset"
begin

section \<open>Data model (types.ts)\<close>

datatype AspectRatio = Portrait | Landscape | Square

text \<open>
  \<open>generateVirtualTryOnImage\<close> returns \<open>Omit<ImageFile, 'id' | 'isFavorite'>\<close>; an
  \<open>ImageFile\<close> adds the two omitted fields.  The field \<open>id\<close> is called \<open>img_id\<close> here
  (\<open>id\<close> is the identity function of HOL).  \<open>isFavorite\<close> is optional in the source:
  \<open>None\<close> is \<open>undefined\<close>.
\<close>

record ResultData =
  data :: string
  mimeType :: string
  aspectRatio :: AspectRatio

record ImageFile = ResultData +
  img_id :: string
  isFavorite :: "bool option"

text \<open>Truthiness of the optional flag: \<open>undefined\<close> and \<open>false\<close> are falsy.\<close>

definition truthy :: "bool option \<Rightarrow> bool" where
  "truthy b = (case b of None \<Rightarrow> False | Some v \<Rightarrow> v)"

section \<open>Session controller (App.tsx)\<close>

record AppState =
  modelImage :: "ImageFile option"
  garmentImage :: "ImageFile option"
  history :: "ImageFile list"
  customPrompt :: string
  generatedImage :: "ImageFile option"
  isLoading :: bool
  error :: "string option"
  isAdvancedOpen :: bool

subsection \<open>The generation service (services/geminiService)\<close>

text \<open>
  What awaiting \<open>ai.models.generateContent\<close> yields: a response whose first candidate
  carries a list of parts (\<open>response.candidates?.[0]?.content?.parts || []\<close>), each with
  an optional \<open>inlineData = {data, mimeType}\<close>; or a thrown \<open>Error\<close> with its message;
  or a thrown value that is not an \<open>Error\<close>.
\<close>

datatype part = Part (inlineData: "(string \<times> string) option")

datatype api_outcome = Responds "part list" | ThrowsError string | ThrowsOther

text \<open>The \<open>for\<close> loop over the parts: the first part with \<open>inlineData\<close> is returned.\<close>

fun first_inline :: "part list \<Rightarrow> (string \<times> string) option" where
  "first_inline [] = None"
| "first_inline (p # ps) =
     (case inlineData p of Some d \<Rightarrow> Some d | None \<Rightarrow> first_inline ps)"

definition no_image_message :: string where
  "no_image_message =
     ''API did not return an image. It may have been blocked due to safety settings or an internal error.''"

text \<open>
  The promise of \<open>generateVirtualTryOnImage\<close>: \<open>Inl msg\<close> is a rejection with
  \<open>new Error(msg)\<close>, \<open>Inr r\<close> a resolution.  The \<open>throw\<close> after the loop is inside the
  \<open>try\<close>, so the \<open>catch\<close> rewraps it like any other \<open>Error\<close>.
\<close>

definition generateVirtualTryOnImage :: "api_outcome \<Rightarrow> string + ResultData" where
  "generateVirtualTryOnImage outcome =
     (case outcome of
        Responds parts \<Rightarrow>
          (case first_inline parts of
             Some (d, m) \<Rightarrow> Inr \<lparr>data = d, mimeType = m, aspectRatio = Portrait\<rparr>
           | None \<Rightarrow> Inl (''Failed to generate image: '' @ no_image_message))
      | ThrowsError msg \<Rightarrow> Inl (''Failed to generate image: '' @ msg)
      | ThrowsOther \<Rightarrow> Inl ''An unknown error occurred during image generation.'')"

subsection \<open>\<open>Date.now().toString()\<close>\<close>

definition digit_char :: "nat \<Rightarrow> char" where
  "digit_char d = char_of (48 + d)"

fun toString :: "nat \<Rightarrow> string" where
  "toString n = (if n < 10 then [digit_char n] else toString (n div 10) @ [digit_char (n mod 10)])"

declare toString.simps [simp del]

subsection \<open>\<open>handleGenerate\<close>\<close>

text \<open>
  \<open>[newImage, ...prev].slice(0, 5)\<close>.
\<close>

definition pushHistory :: "ImageFile \<Rightarrow> ImageFile list \<Rightarrow> ImageFile list" where
  "pushHistory newImage prev = take 5 (newImage # prev)"

text \<open>
  The handler runs in two synchronous pieces around the \<open>await\<close>.  \<open>handleGenerate_begin\<close>
  is the code up to the call: \<open>None\<close> is the early return of the guard (no call is made),
  \<open>Some s'\<close> the state in which the call is pending.  \<open>handleGenerate_settle\<close> is the code
  that runs when the promise settles, on the state of that moment (\<open>setHistory\<close> uses a
  functional update); \<open>now\<close> is the value of \<open>Date.now()\<close>.
\<close>

definition handleGenerate_guard :: "AppState \<Rightarrow> AppState" where
  "handleGenerate_guard s = s\<lparr>error := Some ''Please upload both a person and a garment image.''\<rparr>"

definition handleGenerate_begin :: "AppState \<Rightarrow> AppState option" where
  "handleGenerate_begin s =
     (if modelImage s = None \<or> garmentImage s = None then None
      else Some (s\<lparr>isLoading := True, error := None, generatedImage := None\<rparr>))"

definition mkNewImage :: "nat \<Rightarrow> ResultData \<Rightarrow> ImageFile" where
  "mkNewImage now resultData =
     \<lparr>data = data resultData, mimeType = mimeType resultData,
      aspectRatio = aspectRatio resultData,
      img_id = toString now, isFavorite = Some False\<rparr>"

definition handleGenerate_settle :: "nat \<Rightarrow> string + ResultData \<Rightarrow> AppState \<Rightarrow> AppState" where
  "handleGenerate_settle now settled s =
     (case settled of
        Inr resultData \<Rightarrow>
          (let newImage = mkNewImage now resultData in
           s\<lparr>generatedImage := Some newImage,
             history := pushHistory newImage (history s),
             isLoading := False\<rparr>)
      | Inl message \<Rightarrow>
          s\<lparr>error := Some (if message = [] then ''An unknown error occurred.'' else message),
            isLoading := False\<rparr>)"

text \<open>The whole handler when nothing else happens while the call is pending.\<close>

definition handleGenerate :: "nat \<Rightarrow> api_outcome \<Rightarrow> AppState \<Rightarrow> AppState" where
  "handleGenerate now outcome s =
     (case handleGenerate_begin s of
        None \<Rightarrow> handleGenerate_guard s
      | Some s' \<Rightarrow> handleGenerate_settle now (generateVirtualTryOnImage outcome) s')"

subsection \<open>\<open>handleToggleFavorite\<close>\<close>

definition toggleImage :: "string \<Rightarrow> ImageFile \<Rightarrow> ImageFile" where
  "toggleImage i img =
     (if img_id img = i then img\<lparr>isFavorite := Some (\<not> truthy (isFavorite img))\<rparr> else img)"

definition handleToggleFavorite :: "string \<Rightarrow> AppState \<Rightarrow> AppState" where
  "handleToggleFavorite i s =
     (let newHistory = map (toggleImage i) (history s);
          s1 = s\<lparr>history := newHistory\<rparr>
      in if map_option img_id (generatedImage s) = Some i
         then s1\<lparr>generatedImage :=
                   (case generatedImage s1 of
                      Some prev \<Rightarrow> Some (prev\<lparr>isFavorite := Some (\<not> truthy (isFavorite prev))\<rparr>)
                    | None \<Rightarrow> None)\<rparr>
         else s1)"

subsection \<open>The other handlers\<close>

definition handleClearHistory :: "AppState \<Rightarrow> AppState" where
  "handleClearHistory s = s\<lparr>history := [], generatedImage := None\<rparr>"

definition handleClear :: "AppState \<Rightarrow> AppState" where
  "handleClear s =
     s\<lparr>modelImage := None, garmentImage := None, generatedImage := None, error := None,
       isLoading := False, history := [], customPrompt := [], isAdvancedOpen := False\<rparr>"

definition handleHistorySelect :: "ImageFile \<Rightarrow> AppState \<Rightarrow> AppState" where
  "handleHistorySelect img s = s\<lparr>generatedImage := Some img\<rparr>"

definition handleClearModelImage :: "AppState \<Rightarrow> AppState" where
  "handleClearModelImage s = s\<lparr>modelImage := None\<rparr>"

definition handleClearGarmentImage :: "AppState \<Rightarrow> AppState" where
  "handleClearGarmentImage s = s\<lparr>garmentImage := None\<rparr>"

text \<open>
  \<open>prev?.id || Date.now().toString()\<close>: the id of the image already in the slot is kept
  unless the slot is empty or that id is the empty string.
\<close>

definition keepId :: "nat \<Rightarrow> ImageFile option \<Rightarrow> ImageFile \<Rightarrow> ImageFile" where
  "keepId now prev img =
     img\<lparr>img_id := (case prev of
                      Some p \<Rightarrow> (if img_id p = [] then toString now else img_id p)
                    | None \<Rightarrow> toString now)\<rparr>"

definition handleModelImageUpload :: "nat \<Rightarrow> ImageFile \<Rightarrow> AppState \<Rightarrow> AppState" where
  "handleModelImageUpload now img s = s\<lparr>modelImage := Some (keepId now (modelImage s) img)\<rparr>"

definition handleGarmentImageUpload :: "nat \<Rightarrow> ImageFile \<Rightarrow> AppState \<Rightarrow> AppState" where
  "handleGarmentImageUpload now img s = s\<lparr>garmentImage := Some (keepId now (garmentImage s) img)\<rparr>"

subsection \<open>\<open>sortedHistory\<close>\<close>

text \<open>
  \<open>parseInt(string)\<close> without a radix: leading white space is skipped, then an optional
  sign, then an optional \<open>0x\<close>/\<open>0X\<close> prefix (which selects radix 16), then the longest
  run of digits of the radix; \<open>NaN\<close> (here \<open>None\<close>) when that run is empty.  Characters are
  8-bit, so only the ASCII white space is covered, and the result is the exact integer:
  it is the source's double as long as its magnitude is below \<open>2 ^ 53\<close>.
\<close>

definition isWhiteSpace :: "char \<Rightarrow> bool" where
  "isWhiteSpace c = (of_char c \<in> {9, 10, 11, 12, 13, 32 :: nat})"

definition digitValue :: "char \<Rightarrow> nat option" where
  "digitValue c =
     (let n = (of_char c :: nat) in
      if 48 \<le> n \<and> n \<le> 57 then Some (n - 48)
      else if 97 \<le> n \<and> n \<le> 122 then Some (n - 87)
      else if 65 \<le> n \<and> n \<le> 90 then Some (n - 55)
      else None)"

definition isDigitOf :: "nat \<Rightarrow> char \<Rightarrow> bool" where
  "isDigitOf radix c = (case digitValue c of Some d \<Rightarrow> d < radix | None \<Rightarrow> False)"

definition digitsValue :: "nat \<Rightarrow> string \<Rightarrow> nat" where
  "digitsValue radix ds = foldl (\<lambda>acc c. acc * radix + the (digitValue c)) 0 ds"

definition parseInt :: "string \<Rightarrow> int option" where
  "parseInt s =
     (let s1 = dropWhile isWhiteSpace s;
          sign = (if take 1 s1 = ''-'' then - 1 else (1 :: int));
          s2 = (if take 1 s1 = ''-'' \<or> take 1 s1 = ''+'' then drop 1 s1 else s1);
          hex = (take 2 s2 = ''0x'' \<or> take 2 s2 = ''0X'');
          radix = (if hex then 16 else 10);
          s3 = (if hex then drop 2 s2 else s2);
          ds = takeWhile (isDigitOf radix) s3
      in if ds = [] then None else Some (sign * int (digitsValue radix ds)))"

text \<open>
  The comparator passed to \<open>sort\<close>.  Its result is a JavaScript number: \<open>None\<close> is \<open>NaN\<close>
  (a difference with a \<open>NaN\<close> operand).
\<close>

definition compareFn :: "ImageFile \<Rightarrow> ImageFile \<Rightarrow> int option" where
  "compareFn a b =
     (if truthy (isFavorite a) \<and> \<not> truthy (isFavorite b) then Some (- 1)
      else if \<not> truthy (isFavorite a) \<and> truthy (isFavorite b) then Some 1
      else (case (parseInt (img_id b), parseInt (img_id a)) of
              (Some nb, Some na) \<Rightarrow> Some (nb - na)
            | _ \<Rightarrow> None))"

text \<open>
  \<open>Array.prototype.sort(comparefn)\<close>.  The language fixes two things: a \<open>NaN\<close> from the
  comparator counts as \<open>+0\<close>, and the sort is stable.  For a consistent comparator that
  determines the result, which the insertion sort below computes; for an inconsistent
  one the order is implementation-defined, and this is then one admissible outcome.
\<close>

definition sortCompare :: "('a \<Rightarrow> 'a \<Rightarrow> int option) \<Rightarrow> 'a \<Rightarrow> 'a \<Rightarrow> int" where
  "sortCompare comparefn x y = (case comparefn x y of None \<Rightarrow> 0 | Some v \<Rightarrow> v)"

fun sort_insert :: "('a \<Rightarrow> 'a \<Rightarrow> int option) \<Rightarrow> 'a \<Rightarrow> 'a list \<Rightarrow> 'a list" where
  "sort_insert comparefn x [] = [x]"
| "sort_insert comparefn x (y # ys) =
     (if sortCompare comparefn x y \<le> 0 then x # y # ys else y # sort_insert comparefn x ys)"

definition array_sort :: "('a \<Rightarrow> 'a \<Rightarrow> int option) \<Rightarrow> 'a list \<Rightarrow> 'a list" where
  "array_sort comparefn xs = foldr (sort_insert comparefn) xs []"

definition sortedHistory :: "ImageFile list \<Rightarrow> ImageFile list" where
  "sortedHistory h = array_sort compareFn h"

text \<open>
  The display order in the words of the specification: the favorites first, then the
  others, each group by descending numeric id, entries with equal ids in their original
  order (\<open>sort_key\<close> is the stable sort of the library).
\<close>

abbreviation (input) favorited :: "ImageFile \<Rightarrow> bool" where
  "favorited img \<equiv> truthy (isFavorite img)"

definition idNumber :: "ImageFile \<Rightarrow> int" where
  "idNumber img = the (parseInt (img_id img))"

definition displayOrder_spec :: "ImageFile list \<Rightarrow> ImageFile list" where
  "displayOrder_spec h =
     sort_key (\<lambda>img. - idNumber img) (filter (\<lambda>img. favorited img) h) @
     sort_key (\<lambda>img. - idNumber img) (filter (\<lambda>img. \<not> favorited img) h)"

text \<open>Ids whose number \<open>parseInt\<close> reads exactly, as \<open>Date.now().toString()\<close> gives them.\<close>

definition safeId :: "ImageFile \<Rightarrow> bool" where
  "safeId img = (case parseInt (img_id img) of None \<Rightarrow> False | Some n \<Rightarrow> \<bar>n\<bar> < 2 ^ 53)"

subsection \<open>The controller as a transition system\<close>

text \<open>
  The events of the page, each with the handler it runs.  The two pieces of
  \<open>handleGenerate\<close> are separate events, so that anything may happen while the call is
  pending.
\<close>

datatype app_event =
  GenerateBegin | GenerateSettle nat "string + ResultData"
| ToggleFavorite string | HistorySelect ImageFile | ClearHistory | ClearAll
| ModelImageUpload nat ImageFile | GarmentImageUpload nat ImageFile
| ClearModelImage | ClearGarmentImage | SetCustomPrompt string | ToggleAdvanced

fun app_step :: "AppState \<Rightarrow> app_event \<Rightarrow> AppState" where
  "app_step s GenerateBegin =
     (case handleGenerate_begin s of None \<Rightarrow> handleGenerate_guard s | Some s' \<Rightarrow> s')"
| "app_step s (GenerateSettle now settled) = handleGenerate_settle now settled s"
| "app_step s (ToggleFavorite i) = handleToggleFavorite i s"
| "app_step s (HistorySelect img) = handleHistorySelect img s"
| "app_step s ClearHistory = handleClearHistory s"
| "app_step s ClearAll = handleClear s"
| "app_step s (ModelImageUpload now img) = handleModelImageUpload now img s"
| "app_step s (GarmentImageUpload now img) = handleGarmentImageUpload now img s"
| "app_step s ClearModelImage = handleClearModelImage s"
| "app_step s ClearGarmentImage = handleClearGarmentImage s"
| "app_step s (SetCustomPrompt p) = s\<lparr>customPrompt := p\<rparr>"
| "app_step s ToggleAdvanced = s\<lparr>isAdvancedOpen := \<not> isAdvancedOpen s\<rparr>"

text \<open>
  What the page admits: only an entry of the displayed history can be selected, and the
  time at which a generation succeeds is later than the creation time of every entry,
  so that its id is new.
\<close>

fun enabled :: "AppState \<Rightarrow> app_event \<Rightarrow> bool" where
  "enabled s (HistorySelect img) = (img \<in> set (sortedHistory (history s)))"
| "enabled s (GenerateSettle now (Inr r)) = (toString now \<notin> set (map img_id (history s)))"
| "enabled s ev = True"

fun enabled_run :: "AppState \<Rightarrow> app_event list \<Rightarrow> bool" where
  "enabled_run s [] = True"
| "enabled_run s (ev # evs) = (enabled s ev \<and> enabled_run (app_step s ev) evs)"

definition app_run :: "AppState \<Rightarrow> app_event list \<Rightarrow> AppState" where
  "app_run s evs = foldl app_step s evs"

section \<open>Image ingestion (components/ImageUploader.tsx)\<close>

definition MAX_DIMENSION :: nat where
  "MAX_DIMENSION = 1024"

text \<open>
  \<open>Math.round(n / d)\<close> for natural numbers \<open>n\<close> and \<open>d > 0\<close>: the quotient rounded to the
  nearest integer, a half upwards.  (The source divides in double precision; for
  operands of the size of image dimensions the double quotient lies on the same side of
  every half-integer as the exact one.)  In the source the divisor exceeds
  \<open>MAX_DIMENSION\<close> wherever this is called.
\<close>

definition math_round_div :: "nat \<Rightarrow> nat \<Rightarrow> nat" where
  "math_round_div n d = (2 * n + d) div (2 * d)"

definition constrainDimensions :: "nat \<Rightarrow> nat \<Rightarrow> nat \<times> nat" where
  "constrainDimensions width height =
     (if width > MAX_DIMENSION \<or> height > MAX_DIMENSION then
        (if width > height
         then (MAX_DIMENSION, math_round_div (height * MAX_DIMENSION) width)
         else (math_round_div (width * MAX_DIMENSION) height, MAX_DIMENSION))
      else (width, height))"

text \<open>
  The number \<open>width / height\<close>: a division by zero gives \<open>Infinity\<close>, or \<open>NaN\<close> for
  \<open>0 / 0\<close>, and every comparison with \<open>NaN\<close> is false.
\<close>

datatype js_number = Finite real | PosInfinity | NaN

definition js_divide :: "nat \<Rightarrow> nat \<Rightarrow> js_number" where
  "js_divide w h =
     (if h = 0 then (if w = 0 then NaN else PosInfinity) else Finite (real w / real h))"

definition classifyRatio :: "js_number \<Rightarrow> AspectRatio" where
  "classifyRatio ratio =
     (case ratio of
        Finite r \<Rightarrow> (if r > 11 / 10 then Landscape else if r < 9 / 10 then Portrait else Square)
      | PosInfinity \<Rightarrow> Landscape
      | NaN \<Rightarrow> Square)"

datatype decoded = DecodeFails | Decoded nat nat

datatype ingest_error = DecodeError | NoCanvasContext

text \<open>
  \<open>resizeAndProcessImage\<close> on the outcome of decoding the file (\<open>img.onerror\<close>,
  \<open>reader.onerror\<close>, or an image of intrinsic width and height).  \<open>ctx\<close> tells whether
  \<open>canvas.getContext('2d')\<close> returned a context, \<open>toDataURL w h\<close> is the base64 payload
  the canvas of that size encodes to, \<open>uuid\<close> the value of \<open>crypto.randomUUID()\<close>.  The
  result carries the canvas size next to the \<open>ImageFile\<close>.
\<close>

definition resizeAndProcessImage ::
  "string \<Rightarrow> (nat \<Rightarrow> nat \<Rightarrow> string) \<Rightarrow> bool \<Rightarrow> decoded \<Rightarrow> ingest_error + (nat \<times> nat \<times> ImageFile)" where
  "resizeAndProcessImage uuid toDataURL ctx file =
     (case file of
        DecodeFails \<Rightarrow> Inl DecodeError
      | Decoded w h \<Rightarrow>
          (let (width, height) = constrainDimensions w h in
           if \<not> ctx then Inl NoCanvasContext
           else Inr (width, height,
                     \<lparr>data = toDataURL width height, mimeType = ''image/jpeg'',
                      aspectRatio = classifyRatio (js_divide width height),
                      img_id = uuid, isFavorite = None\<rparr>)))"

section \<open>Durable state (hooks/useLocalStorageState.ts)\<close>

text \<open>
  The hook is generic in the type of the state; its test for the values it erases is a
  test on the run-time value, so the state is a JSON value here.
\<close>

datatype jsval =
  JNull | JBool bool | JNum int | JStr string | JArr "jsval list" | JObj "(string \<times> jsval) list"

text \<open>
  \<open>window.localStorage\<close> is a map from keys to strings.  A write is refused with an
  exception when the user agent's quota does not admit it; \<open>accepts\<close> stands for that
  decision of the user agent.
\<close>

type_synonym storage = "string \<rightharpoonup> string"

datatype storage_error = QuotaExceededError

definition getItem :: "string \<Rightarrow> storage \<Rightarrow> string option" where
  "getItem key st = st key"

definition removeItem :: "string \<Rightarrow> storage \<Rightarrow> storage" where
  "removeItem key st = st(key := None)"

definition setItem ::
  "(storage \<Rightarrow> string \<Rightarrow> string \<Rightarrow> bool) \<Rightarrow> string \<Rightarrow> string \<Rightarrow> storage \<Rightarrow> storage_error + storage" where
  "setItem accepts key v st =
     (if accepts st key v then Inr (st(key \<mapsto> v)) else Inl QuotaExceededError)"

text \<open>
  The initializer of \<open>useState\<close>: the state the hook starts with.  \<open>parse\<close> is
  \<open>JSON.parse\<close>, \<open>None\<close> where it throws; a missing key and the empty string are both
  falsy for \<open>if (storedValue)\<close>.
\<close>

definition useLocalStorageState_init ::
  "(string \<Rightarrow> jsval option) \<Rightarrow> string \<Rightarrow> jsval \<Rightarrow> storage \<Rightarrow> jsval" where
  "useLocalStorageState_init parse key defaultValue st =
     (case getItem key st of
        None \<Rightarrow> defaultValue
      | Some storedValue \<Rightarrow>
          (if storedValue = [] then defaultValue
           else (case parse storedValue of Some v \<Rightarrow> v | None \<Rightarrow> defaultValue)))"

text \<open>
  The effect that runs after every change of the state; \<open>stringify\<close> is
  \<open>JSON.stringify\<close>.  An exception of the write is caught and logged, and the storage is
  as it was.
\<close>

definition useLocalStorageState_effect ::
  "(jsval \<Rightarrow> string) \<Rightarrow> (storage \<Rightarrow> string \<Rightarrow> string \<Rightarrow> bool) \<Rightarrow> string \<Rightarrow> jsval \<Rightarrow> storage \<Rightarrow> storage" where
  "useLocalStorageState_effect stringify accepts key state st =
     (if state = JNull \<or> state = JArr [] then removeItem key st
      else (case setItem accepts key (stringify state) st of
              Inr st' \<Rightarrow> st'
            | Inl e \<Rightarrow> st))"

text \<open>A codec for the literals \<open>null\<close>, \<open>true\<close> and \<open>false\<close>, a fragment of JSON.\<close>

definition stringify_literal :: "jsval \<Rightarrow> string" where
  "stringify_literal v =
     (case v of JBool True \<Rightarrow> ''true'' | JBool False \<Rightarrow> ''false'' | _ \<Rightarrow> ''null'')"

definition parse_literal :: "string \<Rightarrow> jsval option" where
  "parse_literal s =
     (if s = ''null'' then Some JNull
      else if s = ''true'' then Some (JBool True)
      else if s = ''false'' then Some (JBool False)
      else None)"

section \<open>Viewer (components/ResultDisplay.tsx)\<close>

text \<open>
  The state of the zoom viewer; the numbers of the source are doubles and are taken as
  reals here.  The bounds \<open>1\<close> and \<open>5\<close> are doubles themselves, and \<open>Math.min\<close> and
  \<open>Math.max\<close> return one of their arguments.
\<close>

record ViewerState =
  isModalOpen :: bool
  zoom :: real
  position :: "real \<times> real"
  isDragging :: bool
  dragStart :: "real \<times> real"

definition MAX_ZOOM :: real where "MAX_ZOOM = 5"
definition MIN_ZOOM :: real where "MIN_ZOOM = 1"
definition ZOOM_STEP :: real where "ZOOM_STEP = 2 / 10"

definition initialViewer :: ViewerState where
  "initialViewer =
     \<lparr>isModalOpen = False, zoom = 1, position = (0, 0), isDragging = False, dragStart = (0, 0)\<rparr>"

text \<open>\<open>openModal\<close> returns early when there is no generated image.\<close>

definition openModal :: "bool \<Rightarrow> ViewerState \<Rightarrow> ViewerState" where
  "openModal hasImage v = (if \<not> hasImage then v else v\<lparr>isModalOpen := True\<rparr>)"

text \<open>\<open>closeModal\<close> closes at once; its timer resets the view 200 ms later.\<close>

definition closeModal :: "ViewerState \<Rightarrow> ViewerState" where
  "closeModal v = v\<lparr>isModalOpen := False\<rparr>"

definition closeModal_timeout :: "ViewerState \<Rightarrow> ViewerState" where
  "closeModal_timeout v = v\<lparr>zoom := 1, position := (0, 0), isDragging := False\<rparr>"

definition handleZoomIn :: "ViewerState \<Rightarrow> ViewerState" where
  "handleZoomIn v = v\<lparr>zoom := min (zoom v + ZOOM_STEP) MAX_ZOOM\<rparr>"

definition handleZoomOut :: "ViewerState \<Rightarrow> ViewerState" where
  "handleZoomOut v = v\<lparr>zoom := max (zoom v - ZOOM_STEP) MIN_ZOOM\<rparr>"

definition handleResetZoom :: "ViewerState \<Rightarrow> ViewerState" where
  "handleResetZoom v = v\<lparr>zoom := MIN_ZOOM, position := (0, 0)\<rparr>"

definition handleWheel :: "real \<Rightarrow> ViewerState \<Rightarrow> ViewerState" where
  "handleWheel deltaY v =
     (let newZoom = (if deltaY > 0 then zoom v - 1 / 10 else zoom v + 1 / 10)
      in v\<lparr>zoom := max MIN_ZOOM (min newZoom MAX_ZOOM)\<rparr>)"

definition handleMouseDown :: "real \<Rightarrow> real \<Rightarrow> ViewerState \<Rightarrow> ViewerState" where
  "handleMouseDown clientX clientY v =
     (if zoom v \<le> 1 then v
      else v\<lparr>isDragging := True,
             dragStart := (clientX - fst (position v), clientY - snd (position v))\<rparr>)"

definition handleMouseMove :: "real \<Rightarrow> real \<Rightarrow> ViewerState \<Rightarrow> ViewerState" where
  "handleMouseMove clientX clientY v =
     (if \<not> isDragging v then v
      else v\<lparr>position := (clientX - fst (dragStart v), clientY - snd (dragStart v))\<rparr>)"

definition handleMouseUpOrLeave :: "ViewerState \<Rightarrow> ViewerState" where
  "handleMouseUpOrLeave v = v\<lparr>isDragging := False\<rparr>"

datatype viewer_event =
  OpenModal bool | CloseModal | CloseTimeout
| ZoomIn | ZoomOut | ResetZoom | Wheel real
| MouseDown real real | MouseMove real real | MouseUpOrLeave

fun viewer_step :: "ViewerState \<Rightarrow> viewer_event \<Rightarrow> ViewerState" where
  "viewer_step v (OpenModal hasImage) = openModal hasImage v"
| "viewer_step v CloseModal = closeModal v"
| "viewer_step v CloseTimeout = closeModal_timeout v"
| "viewer_step v ZoomIn = handleZoomIn v"
| "viewer_step v ZoomOut = handleZoomOut v"
| "viewer_step v ResetZoom = handleResetZoom v"
| "viewer_step v (Wheel deltaY) = handleWheel deltaY v"
| "viewer_step v (MouseDown x y) = handleMouseDown x y v"
| "viewer_step v (MouseMove x y) = handleMouseMove x y v"
| "viewer_step v MouseUpOrLeave = handleMouseUpOrLeave v"

definition viewer_run :: "ViewerState \<Rightarrow> viewer_event list \<Rightarrow> ViewerState" where
  "viewer_run v evs = foldl viewer_step v evs"

section \<open>Predicates and sample data for the properties\<close>

text \<open>
  The displayed image and the history agree on favorites: every history entry with the
  id of \<open>generatedImage\<close> has its flag (as a truth value).
\<close>

definition favoritesAgree :: "AppState \<Rightarrow> bool" where
  "favoritesAgree s =
     (case generatedImage s of
        None \<Rightarrow> True
      | Some a \<Rightarrow>
          list_all (\<lambda>e. img_id e \<noteq> img_id a \<or> truthy (isFavorite e) = truthy (isFavorite a))
            (history s))"

text \<open>Non-empty strings of decimal digits, the shape of \<open>Date.now().toString()\<close>.\<close>

definition decimal :: "string \<Rightarrow> bool" where
  "decimal s = (s \<noteq> [] \<and> (\<forall>c\<in>set s. \<exists>d<10. c = digit_char d))"

text \<open>The ids of the history are pairwise different, and the displayed image agrees with it.\<close>

definition historyConsistent :: "AppState \<Rightarrow> bool" where
  "historyConsistent s = (distinct (map img_id (history s)) \<and> favoritesAgree s)"

definition sampleImage :: "string \<Rightarrow> bool \<Rightarrow> ImageFile" where
  "sampleImage i fav =
     \<lparr>data = ''AAAA'', mimeType = ''image/png'', aspectRatio = Portrait,
      img_id = i, isFavorite = Some fav\<rparr>"

definition sampleState :: "ImageFile list \<Rightarrow> ImageFile option \<Rightarrow> AppState" where
  "sampleState h g =
     \<lparr>modelImage = Some (sampleImage ''model'' False),
      garmentImage = Some (sampleImage ''garment'' False),
      history = h, customPrompt = [], generatedImage = g,
      isLoading = False, error = None, isAdvancedOpen = False\<rparr>"

section \<open>Properties of the session controller\<close>

subsection \<open>History insertion\<close>

lemma length_pushHistory: "length (pushHistory x h) \<le> 5"
  by (simp add: pushHistory_def)

lemma pushHistory_Cons: "pushHistory x h = x # take 4 h"
  by (simp add: pushHistory_def numeral_eq_Suc)

lemma length_foldl_pushHistory:
  "length h \<le> 5 \<Longrightarrow> length (foldl (\<lambda>acc y. pushHistory y acc) h xs) \<le> 5"
  by (induction xs arbitrary: h) (simp_all add: pushHistory_def)

lemma take4_butlast: "length (h :: 'a list) = 5 \<Longrightarrow> take 4 h = butlast h"
  by (simp add: butlast_conv_take)

text \<open>
  C4: inserting a generated image puts it at the front of the history and keeps at most
  five entries: a history of fewer than five entries keeps them all behind the new
  image, a history of five loses its last entry, whatever the favorite flags are (the
  result is the new image followed by the first four old entries).  Hence from a history
  of at most five entries every sequence of insertions gives a history of at most five
  entries.  The insertion is the one \<open>handleGenerate\<close> performs on success.
\<close>

theorem pushHistory_front_bounded:
  "pushHistory x h = x # take 4 h \<and>
   length (pushHistory x h) \<le> 5 \<and>
   (length h < 5 \<longrightarrow> pushHistory x h = x # h) \<and>
   (length h = 5 \<longrightarrow> pushHistory x h = x # butlast h) \<and>
   (length h \<le> 5 \<longrightarrow> length (foldl (\<lambda>acc y. pushHistory y acc) h xs) \<le> 5) \<and>
   history (handleGenerate_settle now (Inr r) s) = pushHistory (mkNewImage now r) (history s)"
proof -
  have a: "length h \<le> 5 \<longrightarrow> length (foldl (\<lambda>acc y. pushHistory y acc) h xs) \<le> 5"
    using length_foldl_pushHistory by blast
  have b: "history (handleGenerate_settle now (Inr r) s) = pushHistory (mkNewImage now r) (history s)"
    by (simp add: handleGenerate_settle_def Let_def)
  have c: "length h = 5 \<longrightarrow> pushHistory x h = x # butlast h"
    by (simp add: pushHistory_Cons take4_butlast)
  have d: "length h < 5 \<longrightarrow> pushHistory x h = x # h"
    by (simp add: pushHistory_Cons)
  show ?thesis using a b c d pushHistory_Cons length_pushHistory by blast
qed

theorem pushHistory_front_bounded_witness:
  "length [sampleImage ''5'' True, sampleImage ''4'' False, sampleImage ''3'' True,
           sampleImage ''2'' False, sampleImage ''1'' True] = 5 \<and>
   pushHistory (sampleImage ''6'' False)
     [sampleImage ''5'' True, sampleImage ''4'' False, sampleImage ''3'' True,
      sampleImage ''2'' False, sampleImage ''1'' True] =
     [sampleImage ''6'' False, sampleImage ''5'' True, sampleImage ''4'' False,
      sampleImage ''3'' True, sampleImage ''2'' False] \<and>
   length (foldl (\<lambda>acc y. pushHistory y acc)
             [sampleImage ''5'' True, sampleImage ''4'' False, sampleImage ''3'' True,
              sampleImage ''2'' False, sampleImage ''1'' True]
             [sampleImage ''7'' False, sampleImage ''8'' False]) \<le> 5"
  using pushHistory_front_bounded
          [of "sampleImage ''6'' False"
              "[sampleImage ''5'' True, sampleImage ''4'' False, sampleImage ''3'' True,
                sampleImage ''2'' False, sampleImage ''1'' True]"
              "[sampleImage ''7'' False, sampleImage ''8'' False]"
              0 "\<lparr>data = ''BBBB'', mimeType = ''image/png'', aspectRatio = Portrait\<rparr>"
              "sampleState [] None"]
  by (simp add: pushHistory_def)

subsection \<open>Toggling a favorite\<close>

lemma toggleImage_fields:
  "img_id (toggleImage i e) = img_id e \<and> data (toggleImage i e) = data e \<and>
   mimeType (toggleImage i e) = mimeType e \<and> aspectRatio (toggleImage i e) = aspectRatio e"
  by (simp add: toggleImage_def)

lemma toggleImage_flag:
  "truthy (isFavorite (toggleImage i e)) =
     (if img_id e = i then \<not> truthy (isFavorite e) else truthy (isFavorite e))"
  by (simp add: toggleImage_def truthy_def)

lemma toggleImage_other: "img_id e \<noteq> i \<Longrightarrow> toggleImage i e = e"
  by (simp add: toggleImage_def)

lemma history_toggle: "history (handleToggleFavorite i s) = map (toggleImage i) (history s)"
  by (simp add: handleToggleFavorite_def Let_def)

lemma generatedImage_toggle:
  "generatedImage (handleToggleFavorite i s) =
     (case generatedImage s of None \<Rightarrow> None | Some a \<Rightarrow> Some (toggleImage i a))"
  by (auto simp: handleToggleFavorite_def Let_def toggleImage_def split: option.splits)

lemma map_toggle_absent: "i \<notin> img_id ` set h \<Longrightarrow> map (toggleImage i) h = h"
  by (induction h) (auto simp: toggleImage_other)

text \<open>
  C9: \<open>handleToggleFavorite i\<close> keeps the length and the order of the history; at every
  position the id, the data, the media type and the aspect class are what they were; an
  entry whose id is \<open>i\<close> has its favorite flag flipped, and an entry with another id is
  unchanged altogether.  When no entry has the id \<open>i\<close>, the history is unchanged.
\<close>

theorem handleToggleFavorite_history:
  "length (history (handleToggleFavorite i s)) = length (history s) \<and>
   (\<forall>k < length (history s).
      img_id (history (handleToggleFavorite i s) ! k) = img_id (history s ! k) \<and>
      data (history (handleToggleFavorite i s) ! k) = data (history s ! k) \<and>
      mimeType (history (handleToggleFavorite i s) ! k) = mimeType (history s ! k) \<and>
      aspectRatio (history (handleToggleFavorite i s) ! k) = aspectRatio (history s ! k) \<and>
      (img_id (history s ! k) = i \<longrightarrow>
         truthy (isFavorite (history (handleToggleFavorite i s) ! k)) =
           (\<not> truthy (isFavorite (history s ! k)))) \<and>
      (img_id (history s ! k) \<noteq> i \<longrightarrow>
         history (handleToggleFavorite i s) ! k = history s ! k)) \<and>
   (i \<notin> img_id ` set (history s) \<longrightarrow> history (handleToggleFavorite i s) = history s)"
  by (simp add: history_toggle toggleImage_fields toggleImage_flag toggleImage_other
      map_toggle_absent)

theorem handleToggleFavorite_history_witness:
  "history (handleToggleFavorite ''2''
      (sampleState [sampleImage ''3'' False, sampleImage ''2'' False, sampleImage ''1'' True] None)) =
     [sampleImage ''3'' False, sampleImage ''2'' True, sampleImage ''1'' True] \<and>
   ''9'' \<notin> img_id ` set [sampleImage ''3'' False, sampleImage ''2'' False, sampleImage ''1'' True] \<and>
   history (handleToggleFavorite ''9''
      (sampleState [sampleImage ''3'' False, sampleImage ''2'' False, sampleImage ''1'' True] None)) =
     [sampleImage ''3'' False, sampleImage ''2'' False, sampleImage ''1'' True]"
  using handleToggleFavorite_history
          [of "''2''" "sampleState [sampleImage ''3'' False, sampleImage ''2'' False, sampleImage ''1'' True] None"]
        handleToggleFavorite_history
          [of "''9''" "sampleState [sampleImage ''3'' False, sampleImage ''2'' False, sampleImage ''1'' True] None"]
  by (simp add: sampleState_def sampleImage_def handleToggleFavorite_def toggleImage_def truthy_def)

lemma favoritesAgree_toggle: "favoritesAgree s \<Longrightarrow> favoritesAgree (handleToggleFavorite i s)"
  by (auto simp: favoritesAgree_def generatedImage_toggle history_toggle list_all_iff
      toggleImage_flag toggleImage_fields split: option.splits)

subsection \<open>Generation\<close>

lemma generate_error_nonempty: "generateVirtualTryOnImage outcome = Inl msg \<Longrightarrow> msg \<noteq> []"
  by (auto simp: generateVirtualTryOnImage_def split: api_outcome.splits option.splits)

lemma generate_result_portrait:
  "generateVirtualTryOnImage outcome = Inr r \<Longrightarrow> aspectRatio r = Portrait"
  by (auto simp: generateVirtualTryOnImage_def split: api_outcome.splits option.splits)

lemma handleGenerate_occupied:
  "modelImage s \<noteq> None \<Longrightarrow> garmentImage s \<noteq> None \<Longrightarrow>
   handleGenerate now outcome s =
     handleGenerate_settle now (generateVirtualTryOnImage outcome)
       (s\<lparr>isLoading := True, error := None, generatedImage := None\<rparr>)"
  by (auto simp: handleGenerate_def handleGenerate_begin_def)

text \<open>
  C7: when both slots are occupied and the service resolves with \<open>r\<close>, \<open>handleGenerate\<close>
  builds one new image from \<open>r\<close> with the id \<open>Date.now().toString()\<close>, the aspect class
  portrait and the favorite flag false, makes it the displayed image and puts it at the
  front of the history: the displayed image is the head of the history.
\<close>

theorem handleGenerate_success:
  "modelImage s \<noteq> None \<and> garmentImage s \<noteq> None \<and> generateVirtualTryOnImage outcome = Inr r \<longrightarrow>
     generatedImage (handleGenerate now outcome s) = Some (mkNewImage now r) \<and>
     history (handleGenerate now outcome s) = mkNewImage now r # take 4 (history s) \<and>
     generatedImage (handleGenerate now outcome s) = Some (hd (history (handleGenerate now outcome s))) \<and>
     aspectRatio (mkNewImage now r) = Portrait \<and>
     isFavorite (mkNewImage now r) = Some False \<and>
     img_id (mkNewImage now r) = toString now \<and>
     data (mkNewImage now r) = data r \<and> mimeType (mkNewImage now r) = mimeType r"
  by (auto simp: handleGenerate_occupied handleGenerate_settle_def Let_def pushHistory_def
      mkNewImage_def numeral_eq_Suc dest: generate_result_portrait)

theorem handleGenerate_success_witness:
  "modelImage (sampleState [sampleImage ''3'' True] None) \<noteq> None \<and>
   garmentImage (sampleState [sampleImage ''3'' True] None) \<noteq> None \<and>
   generateVirtualTryOnImage (Responds [Part None, Part (Some (''BBBB'', ''image/png''))]) =
     Inr \<lparr>data = ''BBBB'', mimeType = ''image/png'', aspectRatio = Portrait\<rparr> \<and>
   generatedImage (handleGenerate 1700000000001
       (Responds [Part None, Part (Some (''BBBB'', ''image/png''))])
       (sampleState [sampleImage ''3'' True] None)) =
     Some \<lparr>data = ''BBBB'', mimeType = ''image/png'', aspectRatio = Portrait,
           img_id = toString 1700000000001, isFavorite = Some False\<rparr> \<and>
   history (handleGenerate 1700000000001
       (Responds [Part None, Part (Some (''BBBB'', ''image/png''))])
       (sampleState [sampleImage ''3'' True] None)) =
     [\<lparr>data = ''BBBB'', mimeType = ''image/png'', aspectRatio = Portrait,
       img_id = toString 1700000000001, isFavorite = Some False\<rparr>,
      sampleImage ''3'' True]"
  using handleGenerate_success
          [of "sampleState [sampleImage ''3'' True] None"
              "Responds [Part None, Part (Some (''BBBB'', ''image/png''))]"
              "\<lparr>data = ''BBBB'', mimeType = ''image/png'', aspectRatio = Portrait\<rparr>"
              1700000000001]
  by (simp add: sampleState_def generateVirtualTryOnImage_def mkNewImage_def)

text \<open>
  C1, as the code has it: when both slots are occupied and the service rejects with the
  message \<open>msg\<close>, \<open>handleGenerate\<close> puts exactly \<open>msg\<close> into the error state and leaves the
  history, the two slots and the prompt as they were; the displayed image is empty
  afterwards, because the handler clears it before it calls the service.  The code that
  runs on the rejection touches neither the displayed image nor the history.
\<close>

theorem handleGenerate_failure:
  "(modelImage s \<noteq> None \<and> garmentImage s \<noteq> None \<and> generateVirtualTryOnImage outcome = Inl msg \<longrightarrow>
     error (handleGenerate now outcome s) = Some msg \<and>
     history (handleGenerate now outcome s) = history s \<and>
     generatedImage (handleGenerate now outcome s) = None \<and>
     isLoading (handleGenerate now outcome s) = False \<and>
     modelImage (handleGenerate now outcome s) = modelImage s \<and>
     garmentImage (handleGenerate now outcome s) = garmentImage s \<and>
     customPrompt (handleGenerate now outcome s) = customPrompt s) \<and>
   history (handleGenerate_settle now (Inl msg) s) = history s \<and>
   generatedImage (handleGenerate_settle now (Inl msg) s) = generatedImage s"
  by (auto simp: handleGenerate_occupied handleGenerate_settle_def dest: generate_error_nonempty)

theorem handleGenerate_failure_witness:
  "modelImage (sampleState [sampleImage ''3'' True] (Some (sampleImage ''3'' True))) \<noteq> None \<and>
   garmentImage (sampleState [sampleImage ''3'' True] (Some (sampleImage ''3'' True))) \<noteq> None \<and>
   generateVirtualTryOnImage (ThrowsError ''quota'') = Inl ''Failed to generate image: quota'' \<and>
   error (handleGenerate 1700000000001 (ThrowsError ''quota'')
            (sampleState [sampleImage ''3'' True] (Some (sampleImage ''3'' True)))) =
     Some ''Failed to generate image: quota'' \<and>
   history (handleGenerate 1700000000001 (ThrowsError ''quota'')
            (sampleState [sampleImage ''3'' True] (Some (sampleImage ''3'' True)))) =
     [sampleImage ''3'' True]"
  using handleGenerate_failure
          [of "sampleState [sampleImage ''3'' True] (Some (sampleImage ''3'' True))"
              "ThrowsError ''quota''" "''Failed to generate image: quota''" 1700000000001]
  by (simp add: sampleState_def generateVirtualTryOnImage_def)

text \<open>
  The displayed image does not survive a failed generation: here an image is displayed,
  the service throws, and nothing is displayed afterwards.
\<close>

theorem handleGenerate_failure_clears_generatedImage:
  "generateVirtualTryOnImage (ThrowsError ''quota'') = Inl ''Failed to generate image: quota'' \<and>
   generatedImage (sampleState [sampleImage ''3'' True] (Some (sampleImage ''3'' True))) =
     Some (sampleImage ''3'' True) \<and>
   generatedImage (handleGenerate 1700000000001 (ThrowsError ''quota'')
       (sampleState [sampleImage ''3'' True] (Some (sampleImage ''3'' True)))) = None"
  by (simp add: generateVirtualTryOnImage_def sampleState_def handleGenerate_def
      handleGenerate_begin_def handleGenerate_settle_def)

section \<open>Properties of the display order\<close>

subsection \<open>The ids the controller creates are read back by \<open>parseInt\<close>\<close>

lemma of_char_digit_char: "d < 10 \<Longrightarrow> (of_char (digit_char d) :: nat) = 48 + d"
  by (simp add: digit_char_def)

lemma digitValue_digit_char: "d < 10 \<Longrightarrow> digitValue (digit_char d) = Some d"
  by (simp add: digitValue_def of_char_digit_char)

lemma isDigitOf_digit_char: "d < 10 \<Longrightarrow> isDigitOf 10 (digit_char d)"
  by (simp add: isDigitOf_def digitValue_digit_char)

lemma not_space_digit_char: "d < 10 \<Longrightarrow> \<not> isWhiteSpace (digit_char d)"
  by (simp add: isWhiteSpace_def of_char_digit_char)

lemma decimal_toString: "decimal (toString n)"
proof (induction n rule: toString.induct)
  case (1 n)
  show ?case
  proof (cases "n < 10")
    case True
    then show ?thesis by (subst toString.simps) (auto simp: decimal_def)
  next
    case False
    have "\<exists>d<10. digit_char (n mod 10) = digit_char d"
      by (rule exI [of _ "n mod 10"]) simp
    with False 1 show ?thesis by (subst toString.simps) (auto simp: decimal_def)
  qed
qed

lemma digitsValue_snoc: "digitsValue r (ds @ [c]) = digitsValue r ds * r + the (digitValue c)"
  by (simp add: digitsValue_def)

lemma digitsValue_toString: "digitsValue 10 (toString n) = n"
proof (induction n rule: toString.induct)
  case (1 n)
  show ?case
  proof (cases "n < 10")
    case True
    then show ?thesis
      by (subst toString.simps) (simp add: digitsValue_def digitValue_digit_char)
  next
    case False
    have "n mod 10 < 10" by simp
    with False 1 show ?thesis
      by (subst toString.simps) (simp add: digitsValue_snoc digitValue_digit_char)
  qed
qed

lemma parseInt_decimal:
  assumes "decimal s"
  shows "parseInt s = Some (int (digitsValue 10 s))"
proof -
  from assms obtain c cs where s: "s = c # cs" by (cases s) (auto simp: decimal_def)
  from assms s obtain d where d: "d < 10" "c = digit_char d" by (auto simp: decimal_def)
  have all: "\<forall>c\<in>set s. isDigitOf 10 c" using assms by (auto simp: decimal_def isDigitOf_digit_char)
  have ws: "dropWhile isWhiteSpace s = s" using s d by (simp add: not_space_digit_char)
  have c1: "c \<noteq> CHR ''-''" "c \<noteq> CHR ''+''" 
    using d not_space_digit_char[of d] isDigitOf_digit_char[of d]
    by (auto simp: isDigitOf_def digitValue_def)
  have nox: "\<not> isDigitOf 10 (CHR ''x'')" "\<not> isDigitOf 10 (CHR ''X'')"
    by (simp_all add: isDigitOf_def digitValue_def)
  have hex: "take 2 s \<noteq> ''0x''" "take 2 s \<noteq> ''0X''"
    using all nox s by (cases cs; auto)+
  have tw: "takeWhile (isDigitOf 10) s = s" using all by simp
  have sign: "take (Suc 0) s \<noteq> ''-''" "take (Suc 0) s \<noteq> ''+''" using s c1 by simp_all
  have ne: "s \<noteq> []" using s by simp
  show ?thesis
    by (simp add: parseInt_def Let_def ws sign hex tw ne)
qed

lemma parseInt_toString: "parseInt (toString n) = Some (int n)"
  by (simp add: parseInt_decimal decimal_toString digitsValue_toString)

lemma safeId_mkNewImage: "now < 2 ^ 53 \<Longrightarrow> safeId (mkNewImage now r)"
  by (simp add: safeId_def mkNewImage_def parseInt_toString)

lemma safeId_toggleImage: "safeId (toggleImage i e) = safeId e"
  by (simp add: safeId_def toggleImage_def)

subsection \<open>The sort against the specification's order\<close>

lemma sortCompare_compareFn:
  assumes "safeId x" "safeId y"
  shows "(sortCompare compareFn x y \<le> 0) =
           (if favorited x = favorited y then idNumber y \<le> idNumber x else favorited x)"
  using assms
  by (auto simp: sortCompare_def compareFn_def safeId_def idNumber_def split: option.splits)

lemma sort_insert_nonfav_only:
  assumes "\<not> favorited x" "safeId x" "\<forall>b\<in>set B. \<not> favorited b \<and> safeId b"
  shows "sort_insert compareFn x B = insort_key (\<lambda>e. - idNumber e) x B"
  using assms by (induction B) (simp_all add: sortCompare_compareFn)

lemma sort_insert_nonfav:
  assumes "\<not> favorited x" "safeId x" "\<forall>a\<in>set A. favorited a \<and> safeId a" "\<forall>b\<in>set B. \<not> favorited b \<and> safeId b"
  shows "sort_insert compareFn x (A @ B) = A @ insort_key (\<lambda>e. - idNumber e) x B"
  using assms by (induction A) (simp_all add: sortCompare_compareFn sort_insert_nonfav_only)

lemma sort_insert_fav_head:
  assumes "favorited x" "safeId x" "\<forall>b\<in>set B. \<not> favorited b \<and> safeId b"
  shows "sort_insert compareFn x B = x # B"
  using assms by (cases B) (simp_all add: sortCompare_compareFn)

lemma sort_insert_fav:
  assumes "favorited x" "safeId x" "\<forall>a\<in>set A. favorited a \<and> safeId a" "\<forall>b\<in>set B. \<not> favorited b \<and> safeId b"
  shows "sort_insert compareFn x (A @ B) = insort_key (\<lambda>e. - idNumber e) x A @ B"
  using assms by (induction A) (simp_all add: sortCompare_compareFn sort_insert_fav_head)

lemma sortedHistory_refines:
  assumes "\<forall>e\<in>set h. safeId e"
  shows "sortedHistory h = displayOrder_spec h"
  using assms
proof (induction h)
  case Nil
  then show ?case by (simp add: sortedHistory_def array_sort_def displayOrder_spec_def)
next
  case (Cons x xs)
  let ?A = "sort_key (\<lambda>e. - idNumber e) (filter (\<lambda>e. favorited e) xs)"
  let ?B = "sort_key (\<lambda>e. - idNumber e) (filter (\<lambda>e. \<not> favorited e) xs)"
  have IH: "array_sort compareFn xs = ?A @ ?B"
    using Cons by (simp add: sortedHistory_def displayOrder_spec_def)
  have A: "\<forall>a\<in>set ?A. favorited a \<and> safeId a" and B: "\<forall>b\<in>set ?B. \<not> favorited b \<and> safeId b"
    using Cons.prems by auto
  have x: "safeId x" using Cons.prems by simp
  have step: "array_sort compareFn (x # xs) = sort_insert compareFn x (?A @ ?B)"
    using IH by (simp add: array_sort_def)
  show ?case
  proof (cases "favorited x")
    case True
    from sort_insert_fav [OF True x A B] step True
    show ?thesis by (simp add: sortedHistory_def displayOrder_spec_def)
  next
    case False
    from sort_insert_nonfav [OF False x A B] step False
    show ?thesis by (simp add: sortedHistory_def displayOrder_spec_def)
  qed
qed

lemma displayOrder_mset: "mset (displayOrder_spec h) = mset h"
  by (simp add: displayOrder_spec_def)

lemma displayOrder_favorites_first:
  "sorted_wrt (\<lambda>a b. favorited a \<or> \<not> favorited b) (displayOrder_spec h)"
proof -
  have "sorted_wrt (\<lambda>a b. favorited a \<or> \<not> favorited b) xs" if "\<forall>e\<in>set xs. favorited e" for xs
    using that by (induction xs) auto
  moreover have "sorted_wrt (\<lambda>a b. favorited a \<or> \<not> favorited b) xs" if "\<forall>e\<in>set xs. \<not> favorited e" for xs
    using that by (induction xs) auto
  ultimately show ?thesis
    by (auto simp: displayOrder_spec_def sorted_wrt_append)
qed

lemma sorted_wrt_desc_sort_key:
  "sorted_wrt (\<lambda>a b. idNumber b \<le> idNumber a) (sort_key (\<lambda>e. - idNumber e) xs)"
proof -
  have "sorted (map (\<lambda>e. - idNumber e) (sort_key (\<lambda>e. - idNumber e) xs))"
    by (rule sorted_sort_key)
  then show ?thesis
    by (simp add: sorted_map)
qed

lemma displayOrder_descending:
  "sorted_wrt (\<lambda>a b. favorited a = favorited b \<longrightarrow> idNumber b \<le> idNumber a) (displayOrder_spec h)"
proof -
  have mono: "sorted_wrt (\<lambda>a b. idNumber b \<le> idNumber a) xs \<Longrightarrow>
              sorted_wrt (\<lambda>a b. favorited a = favorited b \<longrightarrow> idNumber b \<le> idNumber a) xs" for xs
    by (rule sorted_wrt_mono_rel) auto
  show ?thesis
    by (auto simp: displayOrder_spec_def sorted_wrt_append mono sorted_wrt_desc_sort_key)
qed

lemma filter_sort_key_group:
  "filter (\<lambda>e. favorited e = f \<and> idNumber e = n) (sort_key (\<lambda>e. - idNumber e) xs) =
   filter (\<lambda>e. favorited e = f \<and> idNumber e = n) xs"
proof -
  have "filter (\<lambda>e. favorited e = f \<and> idNumber e = n) (sort_key (\<lambda>e. - idNumber e) xs) =
        filter (\<lambda>e. favorited e = f) (filter (\<lambda>e. - idNumber e = - n) (sort_key (\<lambda>e. - idNumber e) xs))"
    by (simp add: conj_commute)
  also have "\<dots> = filter (\<lambda>e. favorited e = f) (filter (\<lambda>e. - idNumber e = - n) xs)"
    by (simp only: sort_key_stable)
  also have "\<dots> = filter (\<lambda>e. favorited e = f \<and> idNumber e = n) xs"
    by (simp add: conj_commute)
  finally show ?thesis .
qed

lemma filter_split_favorites:
  "filter (\<lambda>e. p e = f \<and> q e) (filter (\<lambda>e. p e) h) @
   filter (\<lambda>e. p e = f \<and> q e) (filter (\<lambda>e. \<not> p e) h) =
   filter (\<lambda>e. p e = f \<and> q e) h"
  by (induction h) auto

lemma displayOrder_stable:
  "filter (\<lambda>e. favorited e = f \<and> idNumber e = n) (displayOrder_spec h) =
   filter (\<lambda>e. favorited e = f \<and> idNumber e = n) h"
proof -
  have "filter (\<lambda>e. favorited e = f \<and> idNumber e = n) (displayOrder_spec h) =
        filter (\<lambda>e. favorited e = f \<and> idNumber e = n) (filter (\<lambda>e. favorited e) h) @
        filter (\<lambda>e. favorited e = f \<and> idNumber e = n) (filter (\<lambda>e. \<not> favorited e) h)"
    by (simp only: displayOrder_spec_def filter_append filter_sort_key_group)
  also have "\<dots> = filter (\<lambda>e. favorited e = f \<and> idNumber e = n) h"
    by (rule filter_split_favorites [of favorited f "\<lambda>e. idNumber e = n" h])
  finally show ?thesis .
qed

lemma parseInt_samples:
  "parseInt ''1'' = Some 1" "parseInt ''2'' = Some 2" "parseInt ''3'' = Some 3"
  "parseInt ''5'' = Some 5" "parseInt ''7'' = Some 7" "parseInt ''9'' = Some 9"
  by (simp_all add: parseInt_def isWhiteSpace_def isDigitOf_def digitValue_def digitsValue_def)

lemma sortedHistory_example:
  "sortedHistory [sampleImage ''3'' False, sampleImage ''1'' True, sampleImage ''2'' False] =
     [sampleImage ''1'' True, sampleImage ''3'' False, sampleImage ''2'' False]"
  by (simp add: sortedHistory_def array_sort_def sortCompare_def compareFn_def sampleImage_def
      truthy_def parseInt_samples)

text \<open>
  C5: for a history whose ids are numbers (\<open>parseInt\<close> reads each exactly, as it does the
  ids \<open>handleGenerate\<close> creates), \<open>sortedHistory\<close> is the display order of the
  specification: a permutation of the history in which every favorite stands before
  every other entry, entries with equal flags stand in descending order of the numeric
  id, and entries with equal flag and equal numeric id keep the order they have in the
  history.  For the ids 3, 1, 2 with the flags false, true, false the order is 1, 3, 2.
\<close>

theorem sortedHistory_display_order:
  "((\<forall>e\<in>set h. safeId e) \<longrightarrow>
      sortedHistory h = displayOrder_spec h \<and>
      mset (sortedHistory h) = mset h \<and>
      sorted_wrt (\<lambda>a b. favorited a \<or> \<not> favorited b) (sortedHistory h) \<and>
      sorted_wrt (\<lambda>a b. favorited a = favorited b \<longrightarrow> idNumber b \<le> idNumber a)
        (sortedHistory h) \<and>
      (\<forall>f n. filter (\<lambda>e. favorited e = f \<and> idNumber e = n) (sortedHistory h) =
             filter (\<lambda>e. favorited e = f \<and> idNumber e = n) h)) \<and>
   map img_id (sortedHistory [sampleImage ''3'' False, sampleImage ''1'' True, sampleImage ''2'' False]) =
     [''1'', ''3'', ''2'']"
proof -
  have ex: "map img_id (sortedHistory [sampleImage ''3'' False, sampleImage ''1'' True, sampleImage ''2'' False]) =
     [''1'', ''3'', ''2'']"
    by (simp add: sortedHistory_example) (simp add: sampleImage_def)
  have gen: "sortedHistory h = displayOrder_spec h \<and>
      mset (sortedHistory h) = mset h \<and>
      sorted_wrt (\<lambda>a b. favorited a \<or> \<not> favorited b) (sortedHistory h) \<and>
      sorted_wrt (\<lambda>a b. favorited a = favorited b \<longrightarrow> idNumber b \<le> idNumber a)
        (sortedHistory h) \<and>
      (\<forall>f n. filter (\<lambda>e. favorited e = f \<and> idNumber e = n) (sortedHistory h) =
             filter (\<lambda>e. favorited e = f \<and> idNumber e = n) h)"
    if safe: "\<forall>e\<in>set h. safeId e"
    using sortedHistory_refines [OF safe] displayOrder_mset [of h]
      displayOrder_favorites_first [of h] displayOrder_descending [of h] displayOrder_stable [of _ _ h]
    by simp
  show ?thesis using ex gen by blast
qed

theorem sortedHistory_display_order_witness:
  "safeId (sampleImage ''5'' False) \<and> safeId (sampleImage ''7'' True) \<and>
   safeId ((sampleImage ''5'' False)\<lparr>data := ''BBBB''\<rparr>) \<and> safeId (sampleImage ''9'' False) \<and>
   sortedHistory [sampleImage ''5'' False, sampleImage ''7'' True,
                  (sampleImage ''5'' False)\<lparr>data := ''BBBB''\<rparr>, sampleImage ''9'' False] =
     [sampleImage ''7'' True, sampleImage ''9'' False, sampleImage ''5'' False,
      (sampleImage ''5'' False)\<lparr>data := ''BBBB''\<rparr>] \<and>
   displayOrder_spec [sampleImage ''5'' False, sampleImage ''7'' True,
                  (sampleImage ''5'' False)\<lparr>data := ''BBBB''\<rparr>, sampleImage ''9'' False] =
     [sampleImage ''7'' True, sampleImage ''9'' False, sampleImage ''5'' False,
      (sampleImage ''5'' False)\<lparr>data := ''BBBB''\<rparr>]"
  using sortedHistory_display_order
          [of "[sampleImage ''5'' False, sampleImage ''7'' True,
                (sampleImage ''5'' False)\<lparr>data := ''BBBB''\<rparr>, sampleImage ''9'' False]"]
  by (simp add: sortedHistory_def array_sort_def sortCompare_def compareFn_def sampleImage_def
      safeId_def truthy_def parseInt_samples)

section \<open>The displayed image and the history\<close>

lemma set_sort_insert: "set (sort_insert c x ys) = insert x (set ys)"
  by (induction ys) auto

lemma set_array_sort: "set (array_sort c xs) = set xs"
  by (induction xs) (simp_all add: array_sort_def set_sort_insert)

lemma img_id_comp_toggle: "img_id \<circ> toggleImage i = img_id"
  by (rule ext) (simp add: toggleImage_def)

lemma distinct_take_ids: "distinct (map img_id h) \<Longrightarrow> distinct (map img_id (take n h))"
  by (simp add: take_map [symmetric])

lemma favoritesAgree_select:
  assumes "distinct (map img_id h)" "img \<in> set h"
  shows "list_all (\<lambda>e. img_id e \<noteq> img_id img \<or> truthy (isFavorite e) = truthy (isFavorite img)) h"
proof -
  have "e = img" if "e \<in> set h" "img_id e = img_id img" for e
    using assms that by (meson distinct_map inj_onD)
  then show ?thesis by (auto simp: list_all_iff)
qed

lemma consistent_frame:
  "history s' = history s \<Longrightarrow> generatedImage s' = generatedImage s \<Longrightarrow>
   historyConsistent s' = historyConsistent s"
  by (simp add: historyConsistent_def favoritesAgree_def split: option.splits)

lemma consistent_step:
  assumes "historyConsistent s" "enabled s ev"
  shows "historyConsistent (app_step s ev)"
proof (cases ev)
  case GenerateBegin
  then show ?thesis using assms
    by (auto simp: historyConsistent_def favoritesAgree_def handleGenerate_begin_def handleGenerate_guard_def
        split: option.splits)
next
  case (GenerateSettle now settled)
  show ?thesis
  proof (cases settled)
    case (Inl msg)
    then show ?thesis using assms GenerateSettle
      by (auto simp: historyConsistent_def favoritesAgree_def handleGenerate_settle_def
          split: option.splits)
  next
    case (Inr r)
    have fresh: "toString now \<notin> img_id ` set (history s)" using assms GenerateSettle Inr by simp
    have fresh4: "\<forall>e\<in>set (take 4 (history s)). img_id e \<noteq> toString now"
    proof
      fix e assume "e \<in> set (take 4 (history s))"
      then have "e \<in> set (history s)" by (rule in_set_takeD)
      then have "img_id e \<in> img_id ` set (history s)" by (rule imageI)
      with fresh show "img_id e \<noteq> toString now" by metis
    qed
    have d: "distinct (map img_id (take 4 (history s)))"
      using assms by (simp add: historyConsistent_def distinct_take_ids)
    have h: "history (app_step s ev) = mkNewImage now r # take 4 (history s)"
      and g: "generatedImage (app_step s ev) = Some (mkNewImage now r)"
      using GenerateSettle Inr by (simp_all add: handleGenerate_settle_def Let_def pushHistory_def numeral_eq_Suc)
    have i: "img_id (mkNewImage now r) = toString now" by (simp add: mkNewImage_def)
    show ?thesis using fresh4 d
      by (auto simp: historyConsistent_def favoritesAgree_def h g i list_all_iff)
  qed
next
  case (ToggleFavorite i)
  then show ?thesis using assms favoritesAgree_toggle [of s i]
    by (simp add: historyConsistent_def history_toggle img_id_comp_toggle)
next
  case (HistorySelect img)
  then have "img \<in> set (history s)" using assms by (simp add: sortedHistory_def set_array_sort)
  with HistorySelect assms favoritesAgree_select [of "history s" img] show ?thesis
    by (simp add: historyConsistent_def favoritesAgree_def handleHistorySelect_def)
next
  case ClearHistory
  then show ?thesis by (simp add: historyConsistent_def favoritesAgree_def handleClearHistory_def)
next
  case ClearAll
  then show ?thesis by (simp add: historyConsistent_def favoritesAgree_def handleClear_def)
next
  case (ModelImageUpload now img)
  then show ?thesis using assms consistent_frame [of "app_step s ev" s]
    by (simp add: handleModelImageUpload_def)
next
  case (GarmentImageUpload now img)
  then show ?thesis using assms consistent_frame [of "app_step s ev" s]
    by (simp add: handleGarmentImageUpload_def)
next
  case ClearModelImage
  then show ?thesis using assms consistent_frame [of "app_step s ev" s]
    by (simp add: handleClearModelImage_def)
next
  case ClearGarmentImage
  then show ?thesis using assms consistent_frame [of "app_step s ev" s]
    by (simp add: handleClearGarmentImage_def)
next
  case (SetCustomPrompt p)
  then show ?thesis using assms consistent_frame [of "app_step s ev" s] by simp
next
  case ToggleAdvanced
  then show ?thesis using assms consistent_frame [of "app_step s ev" s] by simp
qed

lemma consistent_run:
  "historyConsistent s \<Longrightarrow> enabled_run s evs \<Longrightarrow> historyConsistent (app_run s evs)"
  unfolding app_run_def
proof (induction evs arbitrary: s)
  case Nil
  then show ?case by simp
next
  case (Cons ev evs)
  from Cons.prems have en: "enabled s ev" and rest: "enabled_run (app_step s ev) evs" by simp_all
  from Cons.IH [OF consistent_step [OF Cons.prems(1) en] rest] show ?case by simp
qed


lemma toString_4: "toString 4 = ''4''"
  by code_simp

text \<open>
  C10: when \<open>handleToggleFavorite i\<close> runs and the displayed image has the id \<open>i\<close>, the
  flag of the displayed image is flipped too (and a displayed image with another id is
  left as it is); so a toggle keeps the displayed image and the history entries with
  its id on equal favorite flags.  From a state in which the ids of the history are
  pairwise different and the flags agree (as where nothing is displayed), they agree
  after every sequence of events of the page.
\<close>

theorem handleToggleFavorite_generatedImage:
  "(generatedImage s = Some a \<and> img_id a = i \<longrightarrow>
      generatedImage (handleToggleFavorite i s) =
        Some (a\<lparr>isFavorite := Some (\<not> truthy (isFavorite a))\<rparr>)) \<and>
   (generatedImage s = Some a \<and> img_id a \<noteq> i \<longrightarrow>
      generatedImage (handleToggleFavorite i s) = Some a) \<and>
   (favoritesAgree s \<longrightarrow> favoritesAgree (handleToggleFavorite i s)) \<and>
   (historyConsistent s0 \<and> enabled_run s0 evs \<longrightarrow> favoritesAgree (app_run s0 evs))"
proof -
  have "historyConsistent s0 \<and> enabled_run s0 evs \<longrightarrow> favoritesAgree (app_run s0 evs)"
    using consistent_run [of s0 evs] by (simp add: historyConsistent_def)
  then show ?thesis
    using favoritesAgree_toggle [of s i] by (auto simp: generatedImage_toggle toggleImage_def)
qed

theorem handleToggleFavorite_generatedImage_witness:
  "favoritesAgree
     (sampleState [sampleImage ''3'' False, sampleImage ''2'' False] (Some (sampleImage ''2'' False))) \<and>
   generatedImage (handleToggleFavorite ''2''
     (sampleState [sampleImage ''3'' False, sampleImage ''2'' False] (Some (sampleImage ''2'' False)))) =
     Some (sampleImage ''2'' True) \<and>
   favoritesAgree (handleToggleFavorite ''2''
     (sampleState [sampleImage ''3'' False, sampleImage ''2'' False] (Some (sampleImage ''2'' False)))) \<and>
   historyConsistent (sampleState [sampleImage ''3'' False, sampleImage ''2'' False] None) \<and>
   enabled_run (sampleState [sampleImage ''3'' False, sampleImage ''2'' False] None)
     [HistorySelect (sampleImage ''2'' False), ToggleFavorite ''2'', GenerateBegin,
      GenerateSettle 4 (Inr \<lparr>data = ''BBBB'', mimeType = ''image/png'', aspectRatio = Portrait\<rparr>),
      ToggleFavorite ''4''] \<and>
   favoritesAgree (app_run (sampleState [sampleImage ''3'' False, sampleImage ''2'' False] None)
     [HistorySelect (sampleImage ''2'' False), ToggleFavorite ''2'', GenerateBegin,
      GenerateSettle 4 (Inr \<lparr>data = ''BBBB'', mimeType = ''image/png'', aspectRatio = Portrait\<rparr>),
      ToggleFavorite ''4''])"
  using handleToggleFavorite_generatedImage
          [of "sampleState [sampleImage ''3'' False, sampleImage ''2'' False] (Some (sampleImage ''2'' False))"
              "sampleImage ''2'' False" "''2''"
              "sampleState [sampleImage ''3'' False, sampleImage ''2'' False] None"
              "[HistorySelect (sampleImage ''2'' False), ToggleFavorite ''2'', GenerateBegin,
                GenerateSettle 4 (Inr \<lparr>data = ''BBBB'', mimeType = ''image/png'', aspectRatio = Portrait\<rparr>),
                ToggleFavorite ''4'']"]
  by (simp add: sampleState_def sampleImage_def favoritesAgree_def historyConsistent_def truthy_def
      handleToggleFavorite_def toggleImage_def handleHistorySelect_def handleGenerate_begin_def
      handleGenerate_settle_def mkNewImage_def pushHistory_def toString_4
      sortedHistory_def array_sort_def sortCompare_def compareFn_def parseInt_samples)

section \<open>Properties of the image ingestion\<close>

lemma math_round_div_round:
  assumes "0 < d"
  shows "int (math_round_div n d) = round (real n / real d)"
proof -
  have "real n / real d + 1 / 2 = real_of_int (int (2 * n + d)) / real_of_int (int (2 * d))"
    using assms by (simp add: field_simps)
  then have "round (real n / real d) = \<lfloor>real_of_int (int (2 * n + d)) / real_of_int (int (2 * d))\<rfloor>"
    by (simp add: round_def)
  also have "\<dots> = int (2 * n + d) div int (2 * d)"
    by (rule floor_divide_of_int_eq)
  also have "\<dots> = int ((2 * n + d) div (2 * d))"
    by (simp add: zdiv_int)
  finally show ?thesis by (simp add: math_round_div_def)
qed

lemma math_round_div_le:
  assumes "2 * n < (2 * k + 1) * d"
  shows "math_round_div n d \<le> k"
proof -
  have "d > 0" using assms by (cases d) auto
  have "2 * n + d < (k + 1) * (2 * d)" using assms by (simp add: algebra_simps)
  then have "(2 * n + d) div (2 * d) < k + 1"
    using \<open>d > 0\<close> by (simp add: div_less_iff_less_mult)
  then show ?thesis by (simp add: math_round_div_def)
qed

lemma constrain_wide:
  assumes "w > MAX_DIMENSION \<or> h > MAX_DIMENSION" "w > h"
  shows "constrainDimensions w h = (MAX_DIMENSION, math_round_div (h * MAX_DIMENSION) w)"
    and "math_round_div (h * MAX_DIMENSION) w \<le> h"
    and "math_round_div (h * MAX_DIMENSION) w \<le> MAX_DIMENSION"
    and "MAX_DIMENSION < w"
proof -
  show "constrainDimensions w h = (MAX_DIMENSION, math_round_div (h * MAX_DIMENSION) w)"
    using assms by (simp add: constrainDimensions_def)
  show big: "MAX_DIMENSION < w" using assms by auto
  show "math_round_div (h * MAX_DIMENSION) w \<le> h"
  proof (cases "h = 0")
    case True then show ?thesis using assms by (simp add: math_round_div_def)
  next
    case False
    then have "h * MAX_DIMENSION < h * w" using big by simp
    then have "2 * (h * MAX_DIMENSION) < 2 * (h * w)" by simp
    also have "\<dots> \<le> (2 * h + 1) * w" by (simp add: algebra_simps)
    finally have "2 * (h * MAX_DIMENSION) < (2 * h + 1) * w" .
    then show ?thesis by (rule math_round_div_le)
  qed
  have "2 * (h * MAX_DIMENSION) < (2 * MAX_DIMENSION + 1) * w"
    using assms(2) by (simp add: MAX_DIMENSION_def)
  then show "math_round_div (h * MAX_DIMENSION) w \<le> MAX_DIMENSION" by (rule math_round_div_le)
qed

lemma constrain_tall:
  assumes "w > MAX_DIMENSION \<or> h > MAX_DIMENSION" "\<not> w > h"
  shows "constrainDimensions w h = (math_round_div (w * MAX_DIMENSION) h, MAX_DIMENSION)"
    and "math_round_div (w * MAX_DIMENSION) h \<le> w"
    and "math_round_div (w * MAX_DIMENSION) h \<le> MAX_DIMENSION"
    and "MAX_DIMENSION < h"
proof -
  show "constrainDimensions w h = (math_round_div (w * MAX_DIMENSION) h, MAX_DIMENSION)"
    using assms by (simp add: constrainDimensions_def)
  show big: "MAX_DIMENSION < h" using assms by auto
  show "math_round_div (w * MAX_DIMENSION) h \<le> w"
  proof (cases "w = 0")
    case True then show ?thesis using big by (simp add: math_round_div_def)
  next
    case False
    then have "w * MAX_DIMENSION < w * h" using big by simp
    then have "2 * (w * MAX_DIMENSION) < 2 * (w * h)" by simp
    also have "\<dots> \<le> (2 * w + 1) * h" by (simp add: algebra_simps)
    finally have "2 * (w * MAX_DIMENSION) < (2 * w + 1) * h" .
    then show ?thesis by (rule math_round_div_le)
  qed
  have "2 * (w * MAX_DIMENSION) < (2 * MAX_DIMENSION + 1) * h"
    using assms(2) big by (simp add: MAX_DIMENSION_def)
  then show "math_round_div (w * MAX_DIMENSION) h \<le> MAX_DIMENSION" by (rule math_round_div_le)
qed

text \<open>
  C2: for every decoded image of width \<open>w\<close> and height \<open>h\<close> the dimensions the pipeline
  outputs are at most 1024 on both axes and at most the input's on both axes.  When
  neither input dimension exceeds 1024 they are unchanged.  Otherwise the longer edge
  becomes 1024 and the other one is the proportional value \<open>h * 1024 / w\<close> (or
  \<open>w * 1024 / h\<close>) rounded to the nearest integer; for a square input both become 1024.
  These dimensions are the ones of the canvas the pipeline encodes, and the pipeline
  returns an image whenever the file decodes and the canvas gives a context.
\<close>

theorem constrainDimensions_bounds:
  "fst (constrainDimensions w h) \<le> 1024 \<and> snd (constrainDimensions w h) \<le> 1024 \<and>
   fst (constrainDimensions w h) \<le> w \<and> snd (constrainDimensions w h) \<le> h \<and>
   (max w h \<le> 1024 \<longrightarrow> constrainDimensions w h = (w, h)) \<and>
   (max w h > 1024 \<and> w > h \<longrightarrow>
      fst (constrainDimensions w h) = 1024 \<and>
      int (snd (constrainDimensions w h)) = round (real h * 1024 / real w)) \<and>
   (max w h > 1024 \<and> w \<le> h \<longrightarrow>
      snd (constrainDimensions w h) = 1024 \<and>
      int (fst (constrainDimensions w h)) = round (real w * 1024 / real h)) \<and>
   (resizeAndProcessImage uuid toDataURL True (Decoded w h) =
      Inr (fst (constrainDimensions w h), snd (constrainDimensions w h),
           \<lparr>data = toDataURL (fst (constrainDimensions w h)) (snd (constrainDimensions w h)),
            mimeType = ''image/jpeg'',
            aspectRatio = classifyRatio (js_divide (fst (constrainDimensions w h)) (snd (constrainDimensions w h))),
            img_id = uuid, isFavorite = None\<rparr>))"
proof -
  have pipe: "resizeAndProcessImage uuid toDataURL True (Decoded w h) =
      Inr (fst (constrainDimensions w h), snd (constrainDimensions w h),
           \<lparr>data = toDataURL (fst (constrainDimensions w h)) (snd (constrainDimensions w h)),
            mimeType = ''image/jpeg'',
            aspectRatio = classifyRatio (js_divide (fst (constrainDimensions w h)) (snd (constrainDimensions w h))),
            img_id = uuid, isFavorite = None\<rparr>)"
    by (simp add: resizeAndProcessImage_def split_beta)
  consider (small) "\<not> (w > MAX_DIMENSION \<or> h > MAX_DIMENSION)"
    | (wide) "w > MAX_DIMENSION \<or> h > MAX_DIMENSION" "w > h"
    | (tall) "w > MAX_DIMENSION \<or> h > MAX_DIMENSION" "\<not> w > h"
    by blast
  then have dims:
   "fst (constrainDimensions w h) \<le> 1024 \<and> snd (constrainDimensions w h) \<le> 1024 \<and>
   fst (constrainDimensions w h) \<le> w \<and> snd (constrainDimensions w h) \<le> h \<and>
   (max w h \<le> 1024 \<longrightarrow> constrainDimensions w h = (w, h)) \<and>
   (max w h > 1024 \<and> w > h \<longrightarrow>
      fst (constrainDimensions w h) = 1024 \<and>
      int (snd (constrainDimensions w h)) = round (real h * 1024 / real w)) \<and>
   (max w h > 1024 \<and> w \<le> h \<longrightarrow>
      snd (constrainDimensions w h) = 1024 \<and>
      int (fst (constrainDimensions w h)) = round (real w * 1024 / real h))"
  proof cases
    case small
    then show ?thesis by (simp add: constrainDimensions_def MAX_DIMENSION_def max_def)
  next
    case wide
    from constrain_wide [OF wide] math_round_div_round [of w "h * MAX_DIMENSION"] wide
    show ?thesis by (simp add: MAX_DIMENSION_def)
  next
    case tall
    from constrain_tall [OF tall] math_round_div_round [of h "w * MAX_DIMENSION"] tall
    show ?thesis by (simp add: MAX_DIMENSION_def)
  qed
  show ?thesis using dims pipe by blast
qed

theorem constrainDimensions_bounds_witness:
  "max (2000 :: nat) 1000 > 1024 \<and> (2000 :: nat) > 1000 \<and>
   constrainDimensions 2000 1000 = (1024, 512) \<and>
   int (snd (constrainDimensions 2000 1000)) = round (real 1000 * 1024 / real 2000) \<and>
   max (600 :: nat) 1500 > 1024 \<and> (600 :: nat) \<le> 1500 \<and>
   constrainDimensions 600 1500 = (410, 1024) \<and>
   int (fst (constrainDimensions 600 1500)) = round (real 600 * 1024 / real 1500) \<and>
   max (500 :: nat) 500 \<le> 1024 \<and>
   constrainDimensions 500 500 = (500, 500)"
  using constrainDimensions_bounds [of 2000 1000 "''u''" "\<lambda>w h. ''AAAA''"]
        constrainDimensions_bounds [of 600 1500 "''u''" "\<lambda>w h. ''AAAA''"]
        constrainDimensions_bounds [of 500 500 "''u''" "\<lambda>w h. ''AAAA''"]
  by (simp add: constrainDimensions_def math_round_div_def MAX_DIMENSION_def)

text \<open>
  C3: the aspect class is a function of the ratio of the final width and height alone:
  a ratio above 1.1 is landscape, a ratio below 0.9 is portrait, and every ratio from
  0.9 to 1.1 is square; so 1.15 is landscape, 0.95 is square, 0.85 is portrait and 1 is
  square.  The pipeline classifies the quotient of the final dimensions, which is this
  ratio whenever the final height is positive.
\<close>

theorem classifyRatio_thresholds:
  "(r > 11 / 10 \<longrightarrow> classifyRatio (Finite r) = Landscape) \<and>
   (r < 9 / 10 \<longrightarrow> classifyRatio (Finite r) = Portrait) \<and>
   (9 / 10 \<le> r \<and> r \<le> 11 / 10 \<longrightarrow> classifyRatio (Finite r) = Square) \<and>
   classifyRatio (Finite (115 / 100)) = Landscape \<and>
   classifyRatio (Finite (95 / 100)) = Square \<and>
   classifyRatio (Finite (85 / 100)) = Portrait \<and>
   classifyRatio (Finite 1) = Square \<and>
   (0 < height \<longrightarrow>
      classifyRatio (js_divide width height) = classifyRatio (Finite (real width / real height)))"
  by (simp add: classifyRatio_def js_divide_def)

theorem classifyRatio_thresholds_witness:
  "(12 / 10 :: real) > 11 / 10 \<and> classifyRatio (Finite (12 / 10)) = Landscape \<and>
   (1 / 2 :: real) < 9 / 10 \<and> classifyRatio (Finite (1 / 2)) = Portrait \<and>
   (9 / 10 :: real) \<le> 11 / 10 \<and> classifyRatio (Finite (11 / 10)) = Square \<and>
   classifyRatio (Finite (9 / 10)) = Square \<and>
   (0 :: nat) < 512 \<and> classifyRatio (js_divide 1024 512) = Landscape"
  using classifyRatio_thresholds [of "12 / 10" 512 1024]
        classifyRatio_thresholds [of "1 / 2" 512 1024]
        classifyRatio_thresholds [of "11 / 10" 512 1024]
        classifyRatio_thresholds [of "9 / 10" 512 1024]
  by (simp add: classifyRatio_def js_divide_def)

section \<open>Properties of the durable state\<close>

lemma effect_erase:
  "state = JNull \<or> state = JArr [] \<Longrightarrow>
   useLocalStorageState_effect stringify accepts key state st = st(key := None)"
  by (auto simp: useLocalStorageState_effect_def removeItem_def)

lemma effect_write:
  "state \<noteq> JNull \<Longrightarrow> state \<noteq> JArr [] \<Longrightarrow> accepts st key (stringify state) \<Longrightarrow>
   useLocalStorageState_effect stringify accepts key state st = st(key \<mapsto> stringify state)"
  by (simp add: useLocalStorageState_effect_def setItem_def)

lemma effect_refused:
  "state \<noteq> JNull \<Longrightarrow> state \<noteq> JArr [] \<Longrightarrow> \<not> accepts st key (stringify state) \<Longrightarrow>
   useLocalStorageState_effect stringify accepts key state st = st"
  by (simp add: useLocalStorageState_effect_def setItem_def)

text \<open>
  C6: a value that is neither \<open>null\<close> nor an empty array, that JSON serializes to a text
  from which it parses back, and whose write the storage takes, is the state the hook
  starts with after it was persisted under the key.  Persisting \<open>null\<close> or an empty array
  removes the key, and the hook then starts with the caller's default.
\<close>

theorem useLocalStorageState_round_trip:
  "(state \<noteq> JNull \<and> state \<noteq> JArr [] \<and> stringify state \<noteq> [] \<and>
    parse (stringify state) = Some state \<and> accepts st key (stringify state) \<longrightarrow>
      useLocalStorageState_init parse key defaultValue
        (useLocalStorageState_effect stringify accepts key state st) = state) \<and>
   (state = JNull \<or> state = JArr [] \<longrightarrow>
      getItem key (useLocalStorageState_effect stringify accepts key state st) = None \<and>
      useLocalStorageState_init parse key defaultValue
        (useLocalStorageState_effect stringify accepts key state st) = defaultValue)"
  by (auto simp: effect_erase effect_write useLocalStorageState_init_def getItem_def)

theorem useLocalStorageState_round_trip_witness:
  "JBool True \<noteq> JNull \<and> JBool True \<noteq> JArr [] \<and> stringify_literal (JBool True) \<noteq> [] \<and>
   parse_literal (stringify_literal (JBool True)) = Some (JBool True) \<and>
   useLocalStorageState_init parse_literal ''vto-flag'' (JBool False)
     (useLocalStorageState_effect stringify_literal (\<lambda>st k v. True) ''vto-flag'' (JBool True)
        Map.empty) = JBool True \<and>
   getItem ''vto-history''
     (useLocalStorageState_effect stringify_literal (\<lambda>st k v. True) ''vto-history'' (JArr [])
        [''vto-history'' \<mapsto> ''true'']) = None \<and>
   useLocalStorageState_init parse_literal ''vto-history'' (JBool False)
     (useLocalStorageState_effect stringify_literal (\<lambda>st k v. True) ''vto-history'' (JArr [])
        [''vto-history'' \<mapsto> ''true'']) = JBool False \<and>
   useLocalStorageState_init parse_literal ''vto-modelImage'' (JBool False)
     (useLocalStorageState_effect stringify_literal (\<lambda>st k v. True) ''vto-modelImage'' JNull
        [''vto-modelImage'' \<mapsto> ''true'']) = JBool False"
  using useLocalStorageState_round_trip
          [of "JBool True" stringify_literal parse_literal "\<lambda>st k v. True" Map.empty
              "''vto-flag''" "JBool False"]
        useLocalStorageState_round_trip
          [of "JArr []" stringify_literal parse_literal "\<lambda>st k v. True"
              "[''vto-history'' \<mapsto> ''true'']" "''vto-history''" "JBool False"]
        useLocalStorageState_round_trip
          [of JNull stringify_literal parse_literal "\<lambda>st k v. True"
              "[''vto-modelImage'' \<mapsto> ''true'']" "''vto-modelImage''" "JBool False"]
  by (simp add: stringify_literal_def parse_literal_def)

section \<open>Properties of the viewer\<close>

lemma viewer_step_zoom:
  "MIN_ZOOM \<le> zoom v \<and> zoom v \<le> MAX_ZOOM \<Longrightarrow>
   MIN_ZOOM \<le> zoom (viewer_step v ev) \<and> zoom (viewer_step v ev) \<le> MAX_ZOOM"
  by (cases ev)
     (auto simp: openModal_def closeModal_def closeModal_timeout_def handleZoomIn_def
        handleZoomOut_def handleResetZoom_def handleWheel_def handleMouseDown_def
        handleMouseMove_def handleMouseUpOrLeave_def MIN_ZOOM_def MAX_ZOOM_def ZOOM_STEP_def
        Let_def)

lemma viewer_run_zoom:
  "MIN_ZOOM \<le> zoom v \<and> zoom v \<le> MAX_ZOOM \<Longrightarrow>
   MIN_ZOOM \<le> zoom (viewer_run v evs) \<and> zoom (viewer_run v evs) \<le> MAX_ZOOM"
  unfolding viewer_run_def
proof (induction evs arbitrary: v)
  case Nil
  then show ?case by simp
next
  case (Cons ev evs)
  from Cons.IH [OF viewer_step_zoom [OF Cons.prems]] show ?case by simp
qed

text \<open>
  C8: from a viewer whose zoom lies between 1 and 5, and so from the initial viewer,
  every sequence of viewer events (zoom in, zoom out, wheel, reset, drag, open, close)
  leaves the zoom between 1 and 5; and the reset sets the zoom to exactly 1 and the pan
  to the origin, from every state.
\<close>

theorem viewer_zoom_clamped:
  "(1 \<le> zoom v \<and> zoom v \<le> 5 \<longrightarrow>
      1 \<le> zoom (viewer_run v evs) \<and> zoom (viewer_run v evs) \<le> 5) \<and>
   1 \<le> zoom (viewer_run initialViewer evs) \<and> zoom (viewer_run initialViewer evs) \<le> 5 \<and>
   zoom (handleResetZoom v) = 1 \<and> position (handleResetZoom v) = (0, 0)"
proof -
  have a: "1 \<le> zoom v \<and> zoom v \<le> 5 \<longrightarrow>
      1 \<le> zoom (viewer_run v evs) \<and> zoom (viewer_run v evs) \<le> 5"
    using viewer_run_zoom [of v evs] by (simp add: MIN_ZOOM_def MAX_ZOOM_def)
  have b: "1 \<le> zoom (viewer_run initialViewer evs) \<and> zoom (viewer_run initialViewer evs) \<le> 5"
    using viewer_run_zoom [of initialViewer evs]
    by (simp add: MIN_ZOOM_def MAX_ZOOM_def initialViewer_def)
  have c: "zoom (handleResetZoom v) = 1 \<and> position (handleResetZoom v) = (0, 0)"
    by (simp add: handleResetZoom_def MIN_ZOOM_def)
  show ?thesis using a b c by blast
qed

theorem viewer_zoom_clamped_witness:
  "1 \<le> zoom (initialViewer\<lparr>zoom := 49 / 10, position := (30, - 12)\<rparr>) \<and>
   zoom (initialViewer\<lparr>zoom := 49 / 10, position := (30, - 12)\<rparr>) \<le> 5 \<and>
   zoom (viewer_run (initialViewer\<lparr>zoom := 49 / 10, position := (30, - 12)\<rparr>)
           [ZoomIn, Wheel (- 100), ZoomIn]) = 5 \<and>
   zoom (viewer_run initialViewer [ZoomOut, Wheel 100, ZoomIn]) = 12 / 10 \<and>
   zoom (handleResetZoom (initialViewer\<lparr>zoom := 49 / 10, position := (30, - 12)\<rparr>)) = 1 \<and>
   position (handleResetZoom (initialViewer\<lparr>zoom := 49 / 10, position := (30, - 12)\<rparr>)) = (0, 0)"
  using viewer_zoom_clamped
          [of "initialViewer\<lparr>zoom := 49 / 10, position := (30, - 12)\<rparr>"
              "[ZoomIn, Wheel (- 100), ZoomIn]"]
  by (simp add: viewer_run_def initialViewer_def handleZoomIn_def handleZoomOut_def
      handleWheel_def handleResetZoom_def MIN_ZOOM_def MAX_ZOOM_def ZOOM_STEP_def)

end
